theory Spec2Isabelle
  imports Main "HOL-Library.Word"
begin

unbundle bit_operations_syntax

section \<open>Buffers, hex strings and string splitting\<close>

text \<open>
  A Node \<^verbatim>\<open>Buffer\<close> is a list of bytes.  A JavaScript string is represented by the list
  of bytes of its UTF-8 encoding (for the base32 secrets and hex envelopes handled here
  every character is one ASCII byte), so \<^verbatim>\<open>Buffer.from(s, 'utf8')\<close> and
  \<^verbatim>\<open>buf.toString('utf8')\<close> only change the type of the elements.
\<close>

type_synonym byte = "8 word"
type_synonym buffer = "byte list"

definition utf8_bytes :: "string \<Rightarrow> buffer" where
  "utf8_bytes s = map (\<lambda>c. of_nat (of_char c)) s"

definition utf8_string :: "buffer \<Rightarrow> string" where
  "utf8_string bs = map (\<lambda>b. char_of (unat b)) bs"

text \<open>\<^verbatim>\<open>buf.toString('hex')\<close>: two lower-case hex digits per byte.\<close>

definition hex_digit :: "nat \<Rightarrow> char" where
  "hex_digit n = ''0123456789abcdef'' ! n"

definition hex_byte :: "byte \<Rightarrow> string" where
  "hex_byte b = [hex_digit (unat b div 16), hex_digit (unat b mod 16)]"

definition toString_hex :: "buffer \<Rightarrow> string" where
  "toString_hex bs = concat (map hex_byte bs)"

text \<open>
  \<^verbatim>\<open>Buffer.from(s, 'hex')\<close>: Node decodes pairs of hex digits (either case) and stops
  silently at the first pair that is not two hex digits; a trailing single character
  is dropped.  It never throws for a string argument.
\<close>

definition unhex :: "char \<Rightarrow> nat option" where
  "unhex c =
     (let n = (of_char c :: nat) in
      if 48 \<le> n \<and> n \<le> 57 then Some (n - 48)
      else if 97 \<le> n \<and> n \<le> 102 then Some (n - 87)
      else if 65 \<le> n \<and> n \<le> 70 then Some (n - 55)
      else None)"

fun from_hex :: "string \<Rightarrow> buffer" where
  "from_hex (a # b # rest) =
     (case unhex a of
        None \<Rightarrow> []
      | Some h \<Rightarrow> (case unhex b of
          None \<Rightarrow> []
        | Some l \<Rightarrow> of_nat (16 * h + l) # from_hex rest))"
| "from_hex _ = []"

text \<open>\<^verbatim>\<open>text.split(d)\<close> for a one-character separator, and \<^verbatim>\<open>parts.join(d)\<close>.\<close>

fun split_acc :: "char \<Rightarrow> string \<Rightarrow> string \<Rightarrow> string list" where
  "split_acc d cur [] = [rev cur]"
| "split_acc d cur (c # cs) =
     (if c = d then rev cur # split_acc d [] cs else split_acc d (c # cur) cs)"

definition split :: "char \<Rightarrow> string \<Rightarrow> string list" where
  "split d s = split_acc d [] s"

fun join :: "char \<Rightarrow> string list \<Rightarrow> string" where
  "join d [] = []"
| "join d [p] = p"
| "join d (p # q # ps) = p @ d # join d (q # ps)"

section \<open>The secret cipher: AES-256-CBC envelopes\<close>

text \<open>
  The block cipher itself lives in Node's \<^verbatim>\<open>crypto\<close> module, not in the repository:
  the model takes the block encryption and decryption functions (key, then 16-byte
  block) as parameters.  The CBC chaining, the PKCS#7 padding that OpenSSL applies by
  default, the length checks of \<^verbatim>\<open>createCipheriv\<close>/\<^verbatim>\<open>createDecipheriv\<close> and the
  envelope format are written out.  Every exception the calls can throw is a value.
\<close>

type_synonym blockcipher = "buffer \<Rightarrow> buffer \<Rightarrow> buffer"

datatype crypto_error =
    InvalidIV                \<comment> \<open>\<^verbatim>\<open>Invalid initialization vector\<close>\<close>
  | InvalidKeyLength         \<comment> \<open>\<^verbatim>\<open>Invalid key length\<close>\<close>
  | WrongFinalBlockLength    \<comment> \<open>\<^verbatim>\<open>wrong final block length\<close>, from \<^verbatim>\<open>decipher.final()\<close>\<close>
  | BadDecrypt               \<comment> \<open>\<^verbatim>\<open>bad decrypt\<close>, from \<^verbatim>\<open>decipher.final()\<close>\<close>
  | TypeError                \<comment> \<open>\<^verbatim>\<open>Buffer.from(undefined, 'hex')\<close>\<close>

fun xor_block :: "buffer \<Rightarrow> buffer \<Rightarrow> buffer" where
  "xor_block (a # as) (b # bs) = (a XOR b) # xor_block as bs"
| "xor_block _ _ = []"

fun chunks :: "nat \<Rightarrow> buffer \<Rightarrow> buffer list" where
  "chunks 0 bs = []"
| "chunks (Suc n) bs = take 16 bs # chunks n (drop 16 bs)"

definition blocks16 :: "buffer \<Rightarrow> buffer list" where
  "blocks16 bs = chunks (length bs div 16) bs"

definition pkcs7_pad :: "buffer \<Rightarrow> buffer" where
  "pkcs7_pad bs = (let n = 16 - length bs mod 16 in bs @ replicate n (of_nat n))"

text \<open>
  What \<^verbatim>\<open>EVP_DecryptFinal_ex\<close> checks: the last byte \<open>n\<close> is in \<open>1..16\<close> and the last
  \<open>n\<close> bytes all equal \<open>n\<close>; then they are removed.
\<close>

definition pkcs7_unpad :: "buffer \<Rightarrow> buffer option" where
  "pkcs7_unpad bs =
     (if bs = [] then None
      else let n = unat (last bs) in
        if n = 0 \<or> 16 < n \<or> length bs < n then None
        else if drop (length bs - n) bs = replicate n (last bs)
          then Some (take (length bs - n) bs)
          else None)"

fun cbc_enc :: "(buffer \<Rightarrow> buffer) \<Rightarrow> buffer \<Rightarrow> buffer list \<Rightarrow> buffer list" where
  "cbc_enc E prev [] = []"
| "cbc_enc E prev (p # ps) = (let c = E (xor_block p prev) in c # cbc_enc E c ps)"

fun cbc_dec :: "(buffer \<Rightarrow> buffer) \<Rightarrow> buffer \<Rightarrow> buffer list \<Rightarrow> buffer list" where
  "cbc_dec D prev [] = []"
| "cbc_dec D prev (c # cs) = xor_block (D c) prev # cbc_dec D c cs"

text \<open>
  \<^verbatim>\<open>crypto.createCipheriv('aes-256-cbc', key, iv)\<close>: throws unless the IV has 16 bytes
  and the key 32; the result stands for \<^verbatim>\<open>update(data)\<close> followed by \<^verbatim>\<open>final()\<close>.
\<close>

definition createCipheriv ::
    "blockcipher \<Rightarrow> buffer \<Rightarrow> buffer \<Rightarrow> crypto_error + (buffer \<Rightarrow> buffer)" where
  "createCipheriv E key iv =
     (if length iv \<noteq> 16 then Inl InvalidIV
      else if length key \<noteq> 32 then Inl InvalidKeyLength
      else Inr (\<lambda>data. concat (cbc_enc (E key) iv (blocks16 (pkcs7_pad data)))))"

definition decipher_run :: "blockcipher \<Rightarrow> buffer \<Rightarrow> buffer \<Rightarrow> buffer \<Rightarrow> crypto_error + buffer" where
  "decipher_run D key iv data =
     (if data = [] \<or> length data mod 16 \<noteq> 0 then Inl WrongFinalBlockLength
      else case pkcs7_unpad (concat (cbc_dec (D key) iv (blocks16 data))) of
             None \<Rightarrow> Inl BadDecrypt
           | Some plain \<Rightarrow> Inr plain)"

definition createDecipheriv ::
    "blockcipher \<Rightarrow> buffer \<Rightarrow> buffer \<Rightarrow> crypto_error + (buffer \<Rightarrow> crypto_error + buffer)" where
  "createDecipheriv D key iv =
     (if length iv \<noteq> 16 then Inl InvalidIV
      else if length key \<noteq> 32 then Inl InvalidKeyLength
      else Inr (decipher_run D key iv))"

subsection \<open>\<^verbatim>\<open>server.js\<close>: the key is a hex string\<close>

text \<open>
  \<^verbatim>\<open>ENCRYPTION_KEY\<close> is a string there; the cipher key is
  \<^verbatim>\<open>Buffer.from(ENCRYPTION_KEY.slice(0, 64), 'hex')\<close>.  The argument \<open>iv\<close> of
  \<open>encrypt\<close> is the value \<^verbatim>\<open>crypto.randomBytes(16)\<close> returned for this call.
\<close>

definition encrypt :: "blockcipher \<Rightarrow> string \<Rightarrow> buffer \<Rightarrow> string \<Rightarrow> crypto_error + string" where
  "encrypt E ENCRYPTION_KEY iv text =
     (case createCipheriv E (from_hex (take 64 ENCRYPTION_KEY)) iv of
        Inl e \<Rightarrow> Inl e
      | Inr cipher \<Rightarrow>
          Inr (toString_hex iv @ CHR '':'' # toString_hex (cipher (utf8_bytes text))))"

definition decrypt :: "blockcipher \<Rightarrow> string \<Rightarrow> string \<Rightarrow> crypto_error + string" where
  "decrypt D ENCRYPTION_KEY text =
     (case split CHR '':'' text of
        [] \<Rightarrow> Inl TypeError
      | ivHex # parts \<Rightarrow>
          (case createDecipheriv D (from_hex (take 64 ENCRYPTION_KEY)) (from_hex ivHex) of
             Inl e \<Rightarrow> Inl e
           | Inr decipher \<Rightarrow>
               (case decipher (from_hex (join CHR '':'' parts)) of
                  Inl e \<Rightarrow> Inl e
                | Inr decrypted \<Rightarrow> Inr (utf8_string decrypted))))"

subsection \<open>\<^verbatim>\<open>server-backup.js\<close>: the key is the SHA-256 digest buffer\<close>

definition encrypt_backup :: "blockcipher \<Rightarrow> buffer \<Rightarrow> buffer \<Rightarrow> string \<Rightarrow> crypto_error + string" where
  "encrypt_backup E ENCRYPTION_KEY iv text =
     (case createCipheriv E ENCRYPTION_KEY iv of
        Inl e \<Rightarrow> Inl e
      | Inr cipher \<Rightarrow>
          Inr (toString_hex iv @ CHR '':'' # toString_hex (cipher (utf8_bytes text))))"

text \<open>
  \<^verbatim>\<open>const [ivHex, encryptedHex] = text.split(':')\<close>: further segments are ignored, and
  \<^verbatim>\<open>encryptedHex\<close> is \<^verbatim>\<open>undefined\<close> when there is no colon.
\<close>

definition decrypt_backup :: "blockcipher \<Rightarrow> buffer \<Rightarrow> string \<Rightarrow> crypto_error + string" where
  "decrypt_backup D ENCRYPTION_KEY text =
     (case split CHR '':'' text of
        [] \<Rightarrow> Inl TypeError
      | ivHex # parts \<Rightarrow>
          (case createDecipheriv D ENCRYPTION_KEY (from_hex ivHex) of
             Inl e \<Rightarrow> Inl e
           | Inr decipher \<Rightarrow>
               (case parts of
                  [] \<Rightarrow> Inl TypeError
                | encryptedHex # _ \<Rightarrow>
                    (case decipher (from_hex encryptedHex) of
                       Inl e \<Rightarrow> Inl e
                     | Inr decrypted \<Rightarrow> Inr (utf8_string decrypted)))))"

text \<open>
  The contract of the block cipher that the round trip needs: on 16-byte blocks,
  encryption keeps the length and decryption undoes it.
\<close>

definition cipher_pair :: "blockcipher \<Rightarrow> blockcipher \<Rightarrow> buffer \<Rightarrow> bool" where
  "cipher_pair E D key =
     (\<forall>b. length b = 16 \<longrightarrow> length (E key b) = 16 \<and> D key (E key b) = b)"

text \<open>A toy block cipher, used to instantiate the parameters: XOR with the key.\<close>

definition xor_cipher :: blockcipher where
  "xor_cipher key b = xor_block b (take 16 key)"

section \<open>Time remaining in the TOTP period\<close>

text \<open>
  JavaScript's \<^verbatim>\<open>%\<close> on integers truncates towards zero (the result has the sign of
  the dividend) and is \<^verbatim>\<open>NaN\<close> for a zero divisor, here \<open>None\<close>.  The routes compute
  \<^verbatim>\<open>account.period - (epoch % account.period)\<close>, with
  \<^verbatim>\<open>epoch = Math.round(new Date().getTime() / 1000.0)\<close> in \<^verbatim>\<open>server.js\<close> and
  \<^verbatim>\<open>epoch = Math.floor(Date.now() / 1000)\<close> in \<^verbatim>\<open>generateOTP\<close> of
  \<^verbatim>\<open>server-backup.js\<close>; the argument \<open>now\<close> is the clock reading in milliseconds.
\<close>

definition js_rem :: "int \<Rightarrow> int \<Rightarrow> int option" where
  "js_rem a b = (if b = 0 then None else Some (sgn a * (\<bar>a\<bar> mod \<bar>b\<bar>)))"

definition timeRemaining :: "int \<Rightarrow> int \<Rightarrow> int option" where
  "timeRemaining period epoch =
     (case js_rem epoch period of None \<Rightarrow> None | Some r \<Rightarrow> Some (period - r))"

definition epoch_round :: "int \<Rightarrow> int" where
  "epoch_round now = (now + 500) div 1000"

definition epoch_floor :: "int \<Rightarrow> int" where
  "epoch_floor now = now div 1000"

section \<open>The provisioning URI parser\<close>

text \<open>
  \<^verbatim>\<open>parseOTPAuth\<close> of \<^verbatim>\<open>server-backup.js\<close>.  The WHATWG URL parser (\<^verbatim>\<open>new URL\<close>),
  \<^verbatim>\<open>decodeURIComponent\<close>, \<^verbatim>\<open>URLSearchParams.get\<close> and \<^verbatim>\<open>Number\<close> belong to the
  JavaScript runtime and are parameters of the model; \<open>None\<close> stands for a thrown
  exception (\<^verbatim>\<open>new URL\<close>, \<^verbatim>\<open>decodeURIComponent\<close>), for \<^verbatim>\<open>null\<close> (\<^verbatim>\<open>get\<close>) and for
  \<^verbatim>\<open>NaN\<close> (\<^verbatim>\<open>Number\<close>).
\<close>

record url =
  url_host :: string
  url_pathname :: string
  url_search :: string

record js_runtime =
  new_URL :: "string \<Rightarrow> url option"
  decodeURIComponent :: "string \<Rightarrow> string option"
  searchParams_get :: "string \<Rightarrow> string \<Rightarrow> string option"
  js_Number :: "string \<Rightarrow> int option"

datatype parse_error =
    InvalidOTPAuthURL   \<comment> \<open>\<^verbatim>\<open>Error("Invalid OTP Auth URL")\<close>\<close>
  | InvalidURL          \<comment> \<open>the \<^verbatim>\<open>TypeError\<close> of \<^verbatim>\<open>new URL\<close>\<close>
  | URIError            \<comment> \<open>thrown by \<^verbatim>\<open>decodeURIComponent\<close>\<close>
  | SecretNotFound      \<comment> \<open>\<^verbatim>\<open>Error("Secret not found")\<close>\<close>

record otp_params =
  p_secret :: string
  p_issuer :: string
  p_accountName :: string
  p_type :: string
  p_algorithm :: string
  p_digits :: "int option"
  p_period :: "int option"
  p_counter :: "string option"
  p_otpAuthUrl :: string

text \<open>\<^verbatim>\<open>s.toLowerCase()\<close> and \<^verbatim>\<open>s.toUpperCase()\<close> on ASCII letters.\<close>

definition lower_char :: "char \<Rightarrow> char" where
  "lower_char c =
     (let n = (of_char c :: nat) in if 65 \<le> n \<and> n \<le> 90 then char_of (n + 32) else c)"

definition upper_char :: "char \<Rightarrow> char" where
  "upper_char c =
     (let n = (of_char c :: nat) in if 97 \<le> n \<and> n \<le> 122 then char_of (n - 32) else c)"

definition toLowerCase :: "string \<Rightarrow> string" where
  "toLowerCase s = map lower_char s"

definition toUpperCase :: "string \<Rightarrow> string" where
  "toUpperCase s = map upper_char s"

text \<open>\<^verbatim>\<open>a || b\<close> where \<open>a\<close> is a string or \<^verbatim>\<open>null\<close>: the empty string is falsy too.\<close>

definition or_else :: "string option \<Rightarrow> string \<Rightarrow> string" where
  "or_else a b = (case a of None \<Rightarrow> b | Some x \<Rightarrow> if x = [] then b else x)"

definition or_number :: "js_runtime \<Rightarrow> string option \<Rightarrow> int \<Rightarrow> int option" where
  "or_number rt a d =
     (case a of None \<Rightarrow> Some d | Some x \<Rightarrow> if x = [] then Some d else js_Number rt x)"

definition or_null :: "string option \<Rightarrow> string option" where
  "or_null a = (case a of None \<Rightarrow> None | Some x \<Rightarrow> if x = [] then None else Some x)"

definition parseOTPAuth :: "js_runtime \<Rightarrow> string \<Rightarrow> parse_error + otp_params" where
  "parseOTPAuth rt url =
     (if take 10 url \<noteq> ''otpauth://'' then Inl InvalidOTPAuthURL
      else case new_URL rt url of
        None \<Rightarrow> Inl InvalidURL
      | Some urlObj \<Rightarrow>
         (case decodeURIComponent rt (drop 1 (url_pathname urlObj)) of
            None \<Rightarrow> Inl URIError
          | Some label \<Rightarrow>
             (case or_null (searchParams_get rt (url_search urlObj) ''secret'') of
                None \<Rightarrow> Inl SecretNotFound
              | Some secret \<Rightarrow>
                  Inr \<lparr> p_secret = secret,
                        p_issuer = or_else (searchParams_get rt (url_search urlObj) ''issuer'')
                                     (case split CHR '':'' label of [] \<Rightarrow> [] | x # _ \<Rightarrow> x),
                        p_accountName =
                          (if CHR '':'' \<in> set label
                           then (case split CHR '':'' label of _ # y # _ \<Rightarrow> y | _ \<Rightarrow> [])
                           else label),
                        p_type = toLowerCase (url_host urlObj),
                        p_algorithm = toLowerCase
                          (or_else (searchParams_get rt (url_search urlObj) ''algorithm'') ''SHA1''),
                        p_digits = or_number rt (searchParams_get rt (url_search urlObj) ''digits'') 6,
                        p_period = or_number rt (searchParams_get rt (url_search urlObj) ''period'') 30,
                        p_counter = or_null (searchParams_get rt (url_search urlObj) ''counter''),
                        p_otpAuthUrl = url \<rparr>)))"

text \<open>
  A small runtime to run the parser on plain URIs: it splits
  \<^verbatim>\<open>scheme://host/path?query#fragment\<close> at the delimiters and decodes \<^verbatim>\<open>%XX\<close> escapes.
  It agrees with the JavaScript runtime on URIs made of unreserved ASCII characters
  whose authority is a bare host name and whose numbers are plain decimals (no
  user-info, port, dot segments, white space or characters that the URL parser would
  escape).
\<close>

definition is_delim :: "string \<Rightarrow> char \<Rightarrow> bool" where
  "is_delim ds c = (c \<in> set ds)"

definition simple_URL :: "string \<Rightarrow> url option" where
  "simple_URL u =
     (case dropWhile (\<lambda>c. c \<noteq> CHR '':'') u of
        _ # a # b # rest \<Rightarrow>
          if a = CHR ''/'' \<and> b = CHR ''/'' then
            Some \<lparr> url_host = takeWhile (\<lambda>c. \<not> is_delim ''/?#'' c) rest,
                   url_pathname = takeWhile (\<lambda>c. \<not> is_delim ''?#'' c)
                                    (dropWhile (\<lambda>c. \<not> is_delim ''/?#'' c) rest),
                   url_search =
                     (let q = takeWhile (\<lambda>c. c \<noteq> CHR ''#'')
                                (dropWhile (\<lambda>c. \<not> is_delim ''?#'' c) rest)
                      in if q = ''?'' then [] else q) \<rparr>
          else None
      | _ \<Rightarrow> None)"

fun percent_decode :: "nat \<Rightarrow> string \<Rightarrow> string option" where
  "percent_decode 0 s = (if s = [] then Some [] else None)"
| "percent_decode (Suc n) [] = Some []"
| "percent_decode (Suc n) (c # cs) =
     (if c = CHR ''%'' then
        (case cs of
           a # b # rest \<Rightarrow>
             (case unhex a of
                None \<Rightarrow> None
              | Some h \<Rightarrow> (case unhex b of
                  None \<Rightarrow> None
                | Some l \<Rightarrow> map_option ((#) (char_of (16 * h + l))) (percent_decode n rest)))
         | _ \<Rightarrow> None)
      else map_option ((#) c) (percent_decode n cs))"

definition simple_decodeURIComponent :: "string \<Rightarrow> string option" where
  "simple_decodeURIComponent s = percent_decode (length s) s"

definition query_pair :: "string \<Rightarrow> string \<times> string" where
  "query_pair kv =
     (let dec = (\<lambda>x. case simple_decodeURIComponent
                          (map (\<lambda>c. if c = CHR ''+'' then CHR '' '' else c) x) of
                        None \<Rightarrow> x | Some y \<Rightarrow> y)
      in (dec (takeWhile (\<lambda>c. c \<noteq> CHR ''='') kv), dec (drop 1 (dropWhile (\<lambda>c. c \<noteq> CHR ''='') kv))))"

definition simple_get :: "string \<Rightarrow> string \<Rightarrow> string option" where
  "simple_get search name =
     map_of (map query_pair (filter (\<lambda>kv. kv \<noteq> [])
       (split CHR ''&'' (if take 1 search = ''?'' then drop 1 search else search)))) name"

definition is_digit :: "char \<Rightarrow> bool" where
  "is_digit c = (48 \<le> (of_char c :: nat) \<and> (of_char c :: nat) \<le> 57)"

definition simple_Number :: "string \<Rightarrow> int option" where
  "simple_Number s =
     (if s \<noteq> [] \<and> list_all is_digit s
      then Some (foldl (\<lambda>n c. 10 * n + (of_char c - 48)) 0 s)
      else None)"

definition simple_runtime :: js_runtime where
  "simple_runtime =
     \<lparr> new_URL = simple_URL, decodeURIComponent = simple_decodeURIComponent,
       searchParams_get = simple_get, js_Number = simple_Number \<rparr>"

text \<open>Concrete values used to run the definitions: the key of FIPS-197, Appendix C.3.\<close>

definition example_key_hex :: string where
  "example_key_hex = ''000102030405060708090a0b0c0d0e0f101112131415161718191a1b1c1d1e1f''"

definition example_key :: buffer where
  "example_key =
     [0x00, 0x01, 0x02, 0x03, 0x04, 0x05, 0x06, 0x07, 0x08, 0x09, 0x0a, 0x0b, 0x0c, 0x0d, 0x0e, 0x0f,
      0x10, 0x11, 0x12, 0x13, 0x14, 0x15, 0x16, 0x17, 0x18, 0x19, 0x1a, 0x1b, 0x1c, 0x1d, 0x1e, 0x1f]"

definition zero_iv :: buffer where
  "zero_iv = replicate 16 0"

definition ones_iv :: buffer where
  "ones_iv = replicate 16 1"

section \<open>Libraries the servers call\<close>

text \<open>
  \<^verbatim>\<open>speakeasy\<close> (HOTP and TOTP code derivation, base32 decoding) and the block cipher
  of Node's \<^verbatim>\<open>crypto\<close> are not part of the repository.  The servers are modelled over a
  record of these functions.  The option records list the options the call sites pass
  (\<^verbatim>\<open>encoding: 'base32'\<close> is passed everywhere and left out); an option that a call site
  does not pass is \<open>None\<close>.  \<open>t_time\<close> is the clock that \<^verbatim>\<open>speakeasy.totp\<close> reads.  A
  result \<open>None\<close> stands for a thrown exception.
\<close>

record hotp_options =
  h_secret :: string
  h_counter :: nat
  h_digits :: int

record totp_options =
  t_secret :: string
  t_algorithm :: "string option"
  t_digits :: "int option"
  t_step :: "int option"
  t_window :: "nat option"
  t_time :: int

record library =
  aes_encrypt :: blockcipher
  aes_decrypt :: blockcipher
  speakeasy_hotp :: "hotp_options \<Rightarrow> string option"
  speakeasy_totp :: "totp_options \<Rightarrow> string option"

section \<open>The master key\<close>

text \<open>
  \<^verbatim>\<open>server-backup.js\<close> (lines 20--23):
  \<^verbatim>\<open>crypto.createHash('sha256').update(process.env.ENCRYPTION_KEY || 'dev-secret').digest()\<close>.
  An unset variable is \<open>None\<close>; an empty one is falsy as well.  The hash function is a
  parameter.
\<close>

definition ENCRYPTION_KEY_backup :: "(string \<Rightarrow> buffer) \<Rightarrow> string option \<Rightarrow> buffer" where
  "ENCRYPTION_KEY_backup sha256 env = sha256 (or_else env ''dev-secret'')"

text \<open>
  \<^verbatim>\<open>server.js\<close> (line 24):
  \<^verbatim>\<open>process.env.ENCRYPTION_KEY || crypto.randomBytes(32).toString('hex')\<close>, a string; the
  argument \<open>rnd\<close> is the value of \<^verbatim>\<open>crypto.randomBytes(32)\<close> at this start of the process.
  \<open>encrypt\<close> and \<open>decrypt\<close> turn the first 64 characters into the cipher key.
\<close>

definition ENCRYPTION_KEY :: "string option \<Rightarrow> buffer \<Rightarrow> string" where
  "ENCRYPTION_KEY env rnd = or_else env (toString_hex rnd)"


section \<open>JavaScript values in request bodies\<close>

text \<open>
  A request field is absent (\<open>None\<close>) or has the type the interface gives it.  The
  functions below are \<^verbatim>\<open>x || d\<close> for numbers and booleans (\<open>0\<close> and \<^verbatim>\<open>false\<close> are falsy)
  and the destructuring default \<^verbatim>\<open>{x = d}\<close>, which applies to an absent field only.
\<close>

definition or_int :: "int option \<Rightarrow> int \<Rightarrow> int" where
  "or_int a d = (case a of None \<Rightarrow> d | Some x \<Rightarrow> if x = 0 then d else x)"

definition or_false :: "bool option \<Rightarrow> bool" where
  "or_false a = (case a of None \<Rightarrow> False | Some b \<Rightarrow> b)"

definition default_to :: "'a option \<Rightarrow> 'a \<Rightarrow> 'a" where
  "default_to a d = (case a of None \<Rightarrow> d | Some x \<Rightarrow> x)"

text \<open>White space as \<^verbatim>\<open>String.prototype.trim\<close> and the regular expression \<^verbatim>\<open>\s\<close> see it,
  among ASCII characters.\<close>

definition is_space :: "char \<Rightarrow> bool" where
  "is_space c = ((of_char c :: nat) \<in> set [9, 10, 11, 12, 13, 32])"

definition trim :: "string \<Rightarrow> string" where
  "trim s = rev (dropWhile is_space (rev (dropWhile is_space s)))"

definition normalizeBase32 :: "string \<Rightarrow> string" where
  "normalizeBase32 secret = toUpperCase (filter (\<lambda>c. \<not> is_space c) secret)"

datatype http_error =
    KeyAndSecretRequired            \<comment> \<open>400, \<^verbatim>\<open>key and secret are required\<close>\<close>
  | AccountExists                   \<comment> \<open>409, \<^verbatim>\<open>Account already exists\<close>\<close>
  | InvalidSecretKey                \<comment> \<open>400, \<^verbatim>\<open>Invalid secret key\<close>\<close>
  | NotFound "string list"          \<comment> \<open>404, with the list of known keys where the route sends it\<close>
  | ServerError                     \<comment> \<open>500\<close>

section \<open>\<^verbatim>\<open>server.js\<close>: accounts in a document collection\<close>

text \<open>
  An \<^verbatim>\<open>Account\<close> document, with the fields of the schema in \<^verbatim>\<open>models/Account.js\<close> (the
  timestamps that Mongoose maintains are left out).  The collection is the list of
  stored documents under their keys, in insertion order.
\<close>

record account =
  acc_key :: string
  acc_name :: string
  acc_secret :: string
  acc_encrypted :: bool
  acc_digits :: int
  acc_period :: int
  acc_algorithm :: string
  acc_type :: string
  acc_counter :: int

type_synonym collection = "(string \<times> account) list"

text \<open>
  The schema's setters (\<^verbatim>\<open>trim\<close> on \<^verbatim>\<open>key\<close> and \<^verbatim>\<open>name\<close>, \<^verbatim>\<open>lowercase\<close> on
  \<^verbatim>\<open>algorithm\<close> and \<^verbatim>\<open>type\<close>) run when a field is assigned; Mongoose applies them to the
  filter of a query as well, so \<^verbatim>\<open>findByKey\<close> looks the trimmed key up.
\<close>

definition apply_setters :: "account \<Rightarrow> account" where
  "apply_setters a =
     a\<lparr> acc_key := trim (acc_key a), acc_name := trim (acc_name a),
        acc_algorithm := toLowerCase (acc_algorithm a), acc_type := toLowerCase (acc_type a) \<rparr>"

definition findByKey :: "collection \<Rightarrow> string \<Rightarrow> account option" where
  "findByKey coll key = map_of coll (trim key)"

text \<open>
  The schema's validators, run by \<^verbatim>\<open>save()\<close>: \<^verbatim>\<open>required\<close> (a non-empty string),
  \<^verbatim>\<open>min\<close>/\<^verbatim>\<open>max\<close> and \<^verbatim>\<open>enum\<close>.  A failed validation makes \<^verbatim>\<open>save()\<close> throw and
  nothing is written.
\<close>

definition validate :: "account \<Rightarrow> bool" where
  "validate a =
     (acc_key a \<noteq> [] \<and> acc_name a \<noteq> [] \<and> acc_secret a \<noteq> [] \<and>
      6 \<le> acc_digits a \<and> acc_digits a \<le> 8 \<and>
      15 \<le> acc_period a \<and> acc_period a \<le> 60 \<and>
      acc_algorithm a \<in> set [''sha1'', ''sha256'', ''sha512''] \<and>
      acc_type a \<in> set [''totp'', ''hotp''])"

text \<open>\<^verbatim>\<open>save()\<close> of a document that was read from the collection writes it back in place.\<close>

fun replace_doc :: "string \<Rightarrow> 'a \<Rightarrow> (string \<times> 'a) list \<Rightarrow> (string \<times> 'a) list" where
  "replace_doc k a [] = []"
| "replace_doc k a ((k', a') # rest) =
     (if k' = k then (k, a) # rest else (k', a') # replace_doc k a rest)"

subsection \<open>\<^verbatim>\<open>GET /api/code/:accountKey\<close>\<close>

record code_response =
  r_account :: string
  r_code :: string
  r_algorithm :: string
  r_timeRemaining :: int
  r_expiresAt :: int

text \<open>
  The handler reads the account, decrypts the secret when the account is marked
  encrypted, and calls \<^verbatim>\<open>speakeasy.totp\<close> whatever the account's \<^verbatim>\<open>type\<close> is.  Every
  exception ends in the \<^verbatim>\<open>catch\<close> (500); \<^verbatim>\<open>toISOString\<close> throws when the time
  remaining is \<^verbatim>\<open>NaN\<close>.  The handler returns the collection as it found it: it
  contains no write.
\<close>

definition get_code ::
    "library \<Rightarrow> string \<Rightarrow> int \<Rightarrow> string \<Rightarrow> collection \<Rightarrow> (http_error + code_response) \<times> collection" where
  "get_code L K now accountKey coll =
     (case findByKey coll accountKey of
        None \<Rightarrow> (Inl (NotFound (map fst coll)), coll)
      | Some account \<Rightarrow>
         (case (if acc_encrypted account then decrypt (aes_decrypt L) K (acc_secret account)
                else Inr (acc_secret account)) of
            Inl e \<Rightarrow> (Inl ServerError, coll)
          | Inr secret \<Rightarrow>
             (case speakeasy_totp L
                     \<lparr> t_secret = secret, t_algorithm = Some (acc_algorithm account),
                       t_digits = Some (acc_digits account), t_step = Some (acc_period account),
                       t_window = Some 0, t_time = now \<rparr> of
                None \<Rightarrow> (Inl ServerError, coll)
              | Some token \<Rightarrow>
                 (case timeRemaining (acc_period account) (epoch_round now) of
                    None \<Rightarrow> (Inl ServerError, coll)
                  | Some remaining \<Rightarrow>
                     (Inr \<lparr> r_account = or_else (Some (acc_name account)) accountKey,
                            r_code = token, r_algorithm = acc_algorithm account,
                            r_timeRemaining = remaining,
                            r_expiresAt = now + remaining * 1000 \<rparr>, coll)))))"

subsection \<open>\<^verbatim>\<open>POST /api/accounts\<close>\<close>

record create_request =
  rq_key :: "string option"
  rq_name :: "string option"
  rq_secret :: "string option"
  rq_digits :: "int option"
  rq_period :: "int option"
  rq_algorithm :: "string option"
  rq_type :: "string option"
  rq_counter :: "int option"
  rq_encrypt :: "bool option"

record created =
  c_key :: string
  c_name :: string
  c_algorithm :: string

text \<open>The document that \<^verbatim>\<open>new Account({...})\<close> builds from the request.\<close>

definition new_Account :: "create_request \<Rightarrow> string \<Rightarrow> string \<Rightarrow> account" where
  "new_Account rq key stored =
     apply_setters
       \<lparr> acc_key = key, acc_name = or_else (rq_name rq) key, acc_secret = stored,
         acc_encrypted = or_false (rq_encrypt rq),
         acc_digits = or_int (rq_digits rq) 6, acc_period = or_int (rq_period rq) 30,
         acc_algorithm = toLowerCase (or_else (rq_algorithm rq) ''sha1''),
         acc_type = or_else (rq_type rq) ''totp'',
         acc_counter = or_int (rq_counter rq) 0 \<rparr>"

text \<open>
  The handler: 400 without key or secret, 409 when \<^verbatim>\<open>findByKey\<close> finds the key, 400 when
  \<^verbatim>\<open>speakeasy.totp\<close> throws on the secret, and 500 (the outer \<^verbatim>\<open>catch\<close>) when \<open>encrypt\<close>
  or \<^verbatim>\<open>save()\<close> throws.  \<open>iv\<close> is the nonce \<open>encrypt\<close> would draw.
\<close>

definition add_account ::
    "library \<Rightarrow> string \<Rightarrow> int \<Rightarrow> buffer \<Rightarrow> create_request \<Rightarrow> collection \<Rightarrow>
       (http_error + created) \<times> collection" where
  "add_account L K now iv rq coll =
     (case or_null (rq_key rq) of
        None \<Rightarrow> (Inl KeyAndSecretRequired, coll)
      | Some key \<Rightarrow>
     (case or_null (rq_secret rq) of
        None \<Rightarrow> (Inl KeyAndSecretRequired, coll)
      | Some secret \<Rightarrow>
     (case findByKey coll key of
        Some existingAccount \<Rightarrow> (Inl AccountExists, coll)
      | None \<Rightarrow>
     (case speakeasy_totp L
             \<lparr> t_secret = secret,
               t_algorithm = Some (toLowerCase (or_else (rq_algorithm rq) ''sha1'')),
               t_digits = None, t_step = None, t_window = None, t_time = now \<rparr> of
        None \<Rightarrow> (Inl InvalidSecretKey, coll)
      | Some token \<Rightarrow>
     (case (if or_false (rq_encrypt rq) then encrypt (aes_encrypt L) K iv secret
            else Inr secret) of
        Inl e \<Rightarrow> (Inl ServerError, coll)
      | Inr stored \<Rightarrow>
         (let newAccount = new_Account rq key stored in
          if validate newAccount
          then (Inr \<lparr> c_key = acc_key newAccount, c_name = acc_name newAccount,
                      c_algorithm = acc_algorithm newAccount \<rparr>,
                coll @ [(acc_key newAccount, newAccount)])
          else (Inl ServerError, coll)))))))"

subsection \<open>\<^verbatim>\<open>PUT /api/accounts/:key\<close>\<close>

record update_request =
  u_name :: "string option"
  u_secret :: "string option"
  u_digits :: "int option"
  u_period :: "int option"
  u_algorithm :: "string option"
  u_encrypt :: "bool option"

record updated =
  up_key :: string
  up_name :: string

text \<open>The assignments \<^verbatim>\<open>if (x) account.x = x\<close>, in the order of the handler.\<close>

definition assign_fields :: "update_request \<Rightarrow> account \<Rightarrow> account" where
  "assign_fields rq account =
     account\<lparr> acc_name := (case or_null (u_name rq) of
                   None \<Rightarrow> acc_name account | Some name \<Rightarrow> trim name),
              acc_digits := or_int (u_digits rq) (acc_digits account),
              acc_period := or_int (u_period rq) (acc_period account),
              acc_algorithm := (case or_null (u_algorithm rq) of
                   None \<Rightarrow> acc_algorithm account | Some algorithm \<Rightarrow> toLowerCase algorithm) \<rparr>"

definition update_account ::
    "library \<Rightarrow> string \<Rightarrow> buffer \<Rightarrow> string \<Rightarrow> update_request \<Rightarrow> collection \<Rightarrow>
       (http_error + updated) \<times> collection" where
  "update_account L K iv key rq coll =
     (case findByKey coll key of
        None \<Rightarrow> (Inl (NotFound []), coll)
      | Some account \<Rightarrow>
     (case (case or_null (u_secret rq) of
              None \<Rightarrow> Inr (assign_fields rq account)
            | Some secret \<Rightarrow>
               (case (if or_false (u_encrypt rq) then encrypt (aes_encrypt L) K iv secret
                      else Inr secret) of
                  Inl e \<Rightarrow> Inl e
                | Inr stored \<Rightarrow>
                    Inr ((assign_fields rq account)
                          \<lparr> acc_secret := stored, acc_encrypted := or_false (u_encrypt rq) \<rparr>))) of
        Inl e \<Rightarrow> (Inl ServerError, coll)
      | Inr account' \<Rightarrow>
          if validate account'
          then (Inr \<lparr> up_key = acc_key account', up_name = acc_name account' \<rparr>,
                replace_doc (trim key) account' coll)
          else (Inl ServerError, coll)))"

section \<open>\<^verbatim>\<open>server-backup.js\<close>: accounts in process memory\<close>

text \<open>
  The first server of \<^verbatim>\<open>server-backup.js\<close> keeps the accounts in the object
  \<^verbatim>\<open>accounts\<close>.  An account object has the fields the add route writes, and a
  \<^verbatim>\<open>counter\<close> once \<^verbatim>\<open>generateOTP\<close> has set it (\<open>None\<close> is \<^verbatim>\<open>undefined\<close>).  The object is a
  list of entries in insertion order.
\<close>

record mem_account =
  m_name :: string
  m_secret :: string
  m_encrypted :: bool
  m_digits :: int
  m_period :: int
  m_type :: string
  m_algorithm :: string
  m_addedAt :: int
  m_counter :: "nat option"

type_synonym accounts = "(string \<times> mem_account) list"

text \<open>
  \<^verbatim>\<open>accounts[key]\<close> on a plain object also finds the properties inherited from
  \<^verbatim>\<open>Object.prototype\<close>, which are truthy and are not accounts.
\<close>

definition object_prototype_keys :: "string list" where
  "object_prototype_keys =
     [''constructor'', ''__defineGetter__'', ''__defineSetter__'', ''hasOwnProperty'',
      ''__lookupGetter__'', ''__lookupSetter__'', ''isPrototypeOf'', ''propertyIsEnumerable'',
      ''toString'', ''valueOf'', ''__proto__'', ''toLocaleString'']"

datatype slot = Own mem_account | Inherited | Missing

definition lookup :: "accounts \<Rightarrow> string \<Rightarrow> slot" where
  "lookup accs key =
     (case map_of accs key of
        Some account \<Rightarrow> Own account
      | None \<Rightarrow> if key \<in> set object_prototype_keys then Inherited else Missing)"

subsection \<open>\<^verbatim>\<open>generateOTP\<close>\<close>

datatype otp_result =
    Hotp string                 \<comment> \<open>\<^verbatim>\<open>{ code, type: 'hotp' }\<close>\<close>
  | Totp string "int option"    \<comment> \<open>\<^verbatim>\<open>{ code, type: 'totp', timeRemaining }\<close>, \<open>None\<close> for \<^verbatim>\<open>NaN\<close>\<close>

datatype otp_error =
    DecryptThrew crypto_error
  | SpeakeasyThrew

text \<open>
  The function mutates its argument: for an HOTP account it sets \<^verbatim>\<open>account.counter\<close>
  after \<^verbatim>\<open>speakeasy.hotp\<close> has returned.  The model returns the account as the call
  leaves it; when the function throws, the account is as it was.
\<close>

definition generateOTP ::
    "library \<Rightarrow> buffer \<Rightarrow> int \<Rightarrow> mem_account \<Rightarrow> otp_error + otp_result \<times> mem_account" where
  "generateOTP L key now account =
     (case (if m_encrypted account then decrypt_backup (aes_decrypt L) key (m_secret account)
            else Inr (m_secret account)) of
        Inl e \<Rightarrow> Inl (DecryptThrew e)
      | Inr raw \<Rightarrow>
         (let secret = normalizeBase32 raw in
          if m_type account = ''hotp'' then
            (case speakeasy_hotp L
                    \<lparr> h_secret = secret, h_counter = default_to (m_counter account) 0,
                      h_digits = m_digits account \<rparr> of
               None \<Rightarrow> Inl SpeakeasyThrew
             | Some token \<Rightarrow>
                 Inr (Hotp token,
                      account\<lparr> m_counter := Some (default_to (m_counter account) 0 + 1) \<rparr>))
          else
            (case speakeasy_totp L
                    \<lparr> t_secret = secret,
                      t_algorithm = Some (or_else (Some (m_algorithm account)) ''sha256''),
                      t_digits = Some (m_digits account), t_step = Some (m_period account),
                      t_window = Some 1, t_time = now \<rparr> of
               None \<Rightarrow> Inl SpeakeasyThrew
             | Some token \<Rightarrow>
                 Inr (Totp token (timeRemaining (m_period account) (epoch_floor now)), account))))"

subsection \<open>The routes that issue codes\<close>

record code_reply =
  cr_account :: string
  cr_otp :: otp_result

text \<open>
  \<^verbatim>\<open>GET /api/code/:key\<close>.  An inherited property is not an account: \<^verbatim>\<open>generateOTP\<close> throws
  on it (\<^verbatim>\<open>secret\<close> is \<^verbatim>\<open>undefined\<close>), which the handler's \<^verbatim>\<open>catch\<close> turns into 500.
\<close>

definition get_code_backup ::
    "library \<Rightarrow> buffer \<Rightarrow> int \<Rightarrow> string \<Rightarrow> accounts \<Rightarrow> (http_error + code_reply) \<times> accounts" where
  "get_code_backup L key now k accs =
     (case lookup accs k of
        Missing \<Rightarrow> (Inl (NotFound (map fst accs)), accs)
      | Inherited \<Rightarrow> (Inl ServerError, accs)
      | Own account \<Rightarrow>
         (case generateOTP L key now account of
            Inl e \<Rightarrow> (Inl ServerError, accs)
          | Inr (result, account') \<Rightarrow>
              (Inr \<lparr> cr_account = m_name account, cr_otp = result \<rparr>,
               replace_doc k account' accs)))"





subsection \<open>\<^verbatim>\<open>POST /api/accounts\<close>\<close>

text \<open>
  The handler destructures the body with defaults, answers 400 without key or secret
  and 409 when \<^verbatim>\<open>accounts[key]\<close> is truthy.  It has no \<^verbatim>\<open>try\<close>: when \<^verbatim>\<open>speakeasy.totp\<close>
  or \<open>encrypt\<close> throws, the framework answers 500 and the assignment to
  \<^verbatim>\<open>accounts[key]\<close> is not reached.
\<close>

record added =
  a_key :: string

definition add_account_backup ::
    "library \<Rightarrow> buffer \<Rightarrow> int \<Rightarrow> buffer \<Rightarrow> create_request \<Rightarrow> accounts \<Rightarrow>
       (http_error + added) \<times> accounts" where
  "add_account_backup L key now iv rq accs =
     (case or_null (rq_key rq) of
        None \<Rightarrow> (Inl KeyAndSecretRequired, accs)
      | Some k \<Rightarrow>
     (case or_null (rq_secret rq) of
        None \<Rightarrow> (Inl KeyAndSecretRequired, accs)
      | Some secret \<Rightarrow>
         if lookup accs k \<noteq> Missing then (Inl AccountExists, accs)
         else
           (let cleanSecret = normalizeBase32 secret in
            case speakeasy_totp L
                   \<lparr> t_secret = cleanSecret, t_algorithm = None, t_digits = None,
                     t_step = None, t_window = None, t_time = now \<rparr> of
              None \<Rightarrow> (Inl ServerError, accs)
            | Some token \<Rightarrow>
               (case (if default_to (rq_encrypt rq) True
                      then encrypt_backup (aes_encrypt L) key iv cleanSecret
                      else Inr cleanSecret) of
                  Inl e \<Rightarrow> (Inl ServerError, accs)
                | Inr stored \<Rightarrow>
                    (Inr \<lparr> a_key = k \<rparr>,
                     accs @ [(k, \<lparr> m_name = or_else (rq_name rq) k, m_secret = stored,
                                   m_encrypted = default_to (rq_encrypt rq) True,
                                   m_digits = default_to (rq_digits rq) 6,
                                   m_period = default_to (rq_period rq) 30,
                                   m_type = default_to (rq_type rq) ''totp'',
                                   m_algorithm = toLowerCase (default_to (rq_algorithm rq) ''sha256''),
                                   m_addedAt = now, m_counter = None \<rparr>)])))))"

text \<open>Running a route several times: the list holds the clock reading of each request.\<close>

fun issue_all ::
    "library \<Rightarrow> buffer \<Rightarrow> string \<Rightarrow> int list \<Rightarrow> accounts \<Rightarrow> (http_error + code_reply) list \<times> accounts" where
  "issue_all L key k [] accs = ([], accs)"
| "issue_all L key k (now # nows) accs =
     (fst (get_code_backup L key now k accs) #
        fst (issue_all L key k nows (snd (get_code_backup L key now k accs))),
      snd (issue_all L key k nows (snd (get_code_backup L key now k accs))))"

text \<open>The stored counter of an account, \<^verbatim>\<open>account.counter || 0\<close>.\<close>

definition counter_of :: "accounts \<Rightarrow> string \<Rightarrow> nat" where
  "counter_of accs k =
     (case map_of accs k of None \<Rightarrow> 0 | Some account \<Rightarrow> default_to (m_counter account) 0)"

section \<open>AES-256, the block cipher of the servers\<close>

text \<open>
  The cipher that \<^verbatim>\<open>'aes-256-cbc'\<close> names, after FIPS 197: a block and a round key are
  lists of 16 bytes in the order of the input (column by column), the key has 32 bytes
  and there are 14 rounds.  It is used to run \<open>encrypt\<close> and \<open>decrypt\<close> on concrete
  envelopes.
\<close>

definition sbox :: "byte list list" where
  "sbox = [
     [0x63, 0x7c, 0x77, 0x7b, 0xf2, 0x6b, 0x6f, 0xc5, 0x30, 0x01, 0x67, 0x2b, 0xfe, 0xd7, 0xab, 0x76],
     [0xca, 0x82, 0xc9, 0x7d, 0xfa, 0x59, 0x47, 0xf0, 0xad, 0xd4, 0xa2, 0xaf, 0x9c, 0xa4, 0x72, 0xc0],
     [0xb7, 0xfd, 0x93, 0x26, 0x36, 0x3f, 0xf7, 0xcc, 0x34, 0xa5, 0xe5, 0xf1, 0x71, 0xd8, 0x31, 0x15],
     [0x04, 0xc7, 0x23, 0xc3, 0x18, 0x96, 0x05, 0x9a, 0x07, 0x12, 0x80, 0xe2, 0xeb, 0x27, 0xb2, 0x75],
     [0x09, 0x83, 0x2c, 0x1a, 0x1b, 0x6e, 0x5a, 0xa0, 0x52, 0x3b, 0xd6, 0xb3, 0x29, 0xe3, 0x2f, 0x84],
     [0x53, 0xd1, 0x00, 0xed, 0x20, 0xfc, 0xb1, 0x5b, 0x6a, 0xcb, 0xbe, 0x39, 0x4a, 0x4c, 0x58, 0xcf],
     [0xd0, 0xef, 0xaa, 0xfb, 0x43, 0x4d, 0x33, 0x85, 0x45, 0xf9, 0x02, 0x7f, 0x50, 0x3c, 0x9f, 0xa8],
     [0x51, 0xa3, 0x40, 0x8f, 0x92, 0x9d, 0x38, 0xf5, 0xbc, 0xb6, 0xda, 0x21, 0x10, 0xff, 0xf3, 0xd2],
     [0xcd, 0x0c, 0x13, 0xec, 0x5f, 0x97, 0x44, 0x17, 0xc4, 0xa7, 0x7e, 0x3d, 0x64, 0x5d, 0x19, 0x73],
     [0x60, 0x81, 0x4f, 0xdc, 0x22, 0x2a, 0x90, 0x88, 0x46, 0xee, 0xb8, 0x14, 0xde, 0x5e, 0x0b, 0xdb],
     [0xe0, 0x32, 0x3a, 0x0a, 0x49, 0x06, 0x24, 0x5c, 0xc2, 0xd3, 0xac, 0x62, 0x91, 0x95, 0xe4, 0x79],
     [0xe7, 0xc8, 0x37, 0x6d, 0x8d, 0xd5, 0x4e, 0xa9, 0x6c, 0x56, 0xf4, 0xea, 0x65, 0x7a, 0xae, 0x08],
     [0xba, 0x78, 0x25, 0x2e, 0x1c, 0xa6, 0xb4, 0xc6, 0xe8, 0xdd, 0x74, 0x1f, 0x4b, 0xbd, 0x8b, 0x8a],
     [0x70, 0x3e, 0xb5, 0x66, 0x48, 0x03, 0xf6, 0x0e, 0x61, 0x35, 0x57, 0xb9, 0x86, 0xc1, 0x1d, 0x9e],
     [0xe1, 0xf8, 0x98, 0x11, 0x69, 0xd9, 0x8e, 0x94, 0x9b, 0x1e, 0x87, 0xe9, 0xce, 0x55, 0x28, 0xdf],
     [0x8c, 0xa1, 0x89, 0x0d, 0xbf, 0xe6, 0x42, 0x68, 0x41, 0x99, 0x2d, 0x0f, 0xb0, 0x54, 0xbb, 0x16]]"

definition inv_sbox :: "byte list list" where
  "inv_sbox = [
     [0x52, 0x09, 0x6a, 0xd5, 0x30, 0x36, 0xa5, 0x38, 0xbf, 0x40, 0xa3, 0x9e, 0x81, 0xf3, 0xd7, 0xfb],
     [0x7c, 0xe3, 0x39, 0x82, 0x9b, 0x2f, 0xff, 0x87, 0x34, 0x8e, 0x43, 0x44, 0xc4, 0xde, 0xe9, 0xcb],
     [0x54, 0x7b, 0x94, 0x32, 0xa6, 0xc2, 0x23, 0x3d, 0xee, 0x4c, 0x95, 0x0b, 0x42, 0xfa, 0xc3, 0x4e],
     [0x08, 0x2e, 0xa1, 0x66, 0x28, 0xd9, 0x24, 0xb2, 0x76, 0x5b, 0xa2, 0x49, 0x6d, 0x8b, 0xd1, 0x25],
     [0x72, 0xf8, 0xf6, 0x64, 0x86, 0x68, 0x98, 0x16, 0xd4, 0xa4, 0x5c, 0xcc, 0x5d, 0x65, 0xb6, 0x92],
     [0x6c, 0x70, 0x48, 0x50, 0xfd, 0xed, 0xb9, 0xda, 0x5e, 0x15, 0x46, 0x57, 0xa7, 0x8d, 0x9d, 0x84],
     [0x90, 0xd8, 0xab, 0x00, 0x8c, 0xbc, 0xd3, 0x0a, 0xf7, 0xe4, 0x58, 0x05, 0xb8, 0xb3, 0x45, 0x06],
     [0xd0, 0x2c, 0x1e, 0x8f, 0xca, 0x3f, 0x0f, 0x02, 0xc1, 0xaf, 0xbd, 0x03, 0x01, 0x13, 0x8a, 0x6b],
     [0x3a, 0x91, 0x11, 0x41, 0x4f, 0x67, 0xdc, 0xea, 0x97, 0xf2, 0xcf, 0xce, 0xf0, 0xb4, 0xe6, 0x73],
     [0x96, 0xac, 0x74, 0x22, 0xe7, 0xad, 0x35, 0x85, 0xe2, 0xf9, 0x37, 0xe8, 0x1c, 0x75, 0xdf, 0x6e],
     [0x47, 0xf1, 0x1a, 0x71, 0x1d, 0x29, 0xc5, 0x89, 0x6f, 0xb7, 0x62, 0x0e, 0xaa, 0x18, 0xbe, 0x1b],
     [0xfc, 0x56, 0x3e, 0x4b, 0xc6, 0xd2, 0x79, 0x20, 0x9a, 0xdb, 0xc0, 0xfe, 0x78, 0xcd, 0x5a, 0xf4],
     [0x1f, 0xdd, 0xa8, 0x33, 0x88, 0x07, 0xc7, 0x31, 0xb1, 0x12, 0x10, 0x59, 0x27, 0x80, 0xec, 0x5f],
     [0x60, 0x51, 0x7f, 0xa9, 0x19, 0xb5, 0x4a, 0x0d, 0x2d, 0xe5, 0x7a, 0x9f, 0x93, 0xc9, 0x9c, 0xef],
     [0xa0, 0xe0, 0x3b, 0x4d, 0xae, 0x2a, 0xf5, 0xb0, 0xc8, 0xeb, 0xbb, 0x3c, 0x83, 0x53, 0x99, 0x61],
     [0x17, 0x2b, 0x04, 0x7e, 0xba, 0x77, 0xd6, 0x26, 0xe1, 0x69, 0x14, 0x63, 0x55, 0x21, 0x0c, 0x7d]]"

definition sub_byte :: "byte \<Rightarrow> byte" where
  "sub_byte b = sbox ! unat (drop_bit 4 b) ! unat (b AND 15)"

definition inv_sub_byte :: "byte \<Rightarrow> byte" where
  "inv_sub_byte b = inv_sbox ! unat (drop_bit 4 b) ! unat (b AND 15)"

definition xtime :: "byte \<Rightarrow> byte" where
  "xtime b = push_bit 1 b XOR (if bit b 7 then 0x1b else 0)"

definition shift_rows :: "buffer \<Rightarrow> buffer" where
  "shift_rows s = map (nth s) [0, 5, 10, 15, 4, 9, 14, 3, 8, 13, 2, 7, 12, 1, 6, 11]"

definition inv_shift_rows :: "buffer \<Rightarrow> buffer" where
  "inv_shift_rows s = map (nth s) [0, 13, 10, 7, 4, 1, 14, 11, 8, 5, 2, 15, 12, 9, 6, 3]"

fun mix_columns :: "buffer \<Rightarrow> buffer" where
  "mix_columns (a # b # c # d # rest) =
     (xtime a XOR (xtime b XOR b) XOR c XOR d) #
     (a XOR xtime b XOR (xtime c XOR c) XOR d) #
     (a XOR b XOR xtime c XOR (xtime d XOR d)) #
     ((xtime a XOR a) XOR b XOR c XOR xtime d) # mix_columns rest"
| "mix_columns _ = []"

definition mul9 :: "byte \<Rightarrow> byte" where "mul9 b = xtime (xtime (xtime b)) XOR b"
definition mul11 :: "byte \<Rightarrow> byte" where "mul11 b = xtime (xtime (xtime b)) XOR xtime b XOR b"
definition mul13 :: "byte \<Rightarrow> byte" where "mul13 b = xtime (xtime (xtime b)) XOR xtime (xtime b) XOR b"
definition mul14 :: "byte \<Rightarrow> byte" where "mul14 b = xtime (xtime (xtime b)) XOR xtime (xtime b) XOR xtime b"

fun inv_mix_columns :: "buffer \<Rightarrow> buffer" where
  "inv_mix_columns (a # b # c # d # rest) =
     (mul14 a XOR mul11 b XOR mul13 c XOR mul9 d) #
     (mul9 a XOR mul14 b XOR mul11 c XOR mul13 d) #
     (mul13 a XOR mul9 b XOR mul14 c XOR mul11 d) #
     (mul11 a XOR mul13 b XOR mul9 c XOR mul14 d) # inv_mix_columns rest"
| "inv_mix_columns _ = []"

definition rcon :: "byte list" where
  "rcon = [0x01, 0x02, 0x04, 0x08, 0x10, 0x20, 0x40]"

fun words4 :: "buffer \<Rightarrow> buffer list" where
  "words4 (a # b # c # d # rest) = [a, b, c, d] # words4 rest"
| "words4 _ = []"

definition key_temp :: "nat \<Rightarrow> buffer \<Rightarrow> buffer" where
  "key_temp i w =
     (if i mod 8 = 0 then xor_block (map sub_byte (rotate1 w)) [rcon ! (i div 8 - 1), 0, 0, 0]
      else if i mod 8 = 4 then map sub_byte w
      else w)"

definition key_step :: "buffer list \<Rightarrow> nat \<Rightarrow> buffer list" where
  "key_step ws i = ws @ [xor_block (ws ! (i - 8)) (key_temp i (last ws))]"

definition key_words :: "buffer \<Rightarrow> buffer list" where
  "key_words key = foldl key_step (words4 key) [8..<60]"

fun round_keys :: "buffer list \<Rightarrow> buffer list" where
  "round_keys (a # b # c # d # rest) = (a @ b @ c @ d) # round_keys rest"
| "round_keys _ = []"

definition key_expansion :: "buffer \<Rightarrow> buffer list" where
  "key_expansion key = round_keys (key_words key)"

definition enc_round :: "buffer \<Rightarrow> buffer \<Rightarrow> buffer" where
  "enc_round s rk = xor_block (mix_columns (shift_rows (map sub_byte s))) rk"

definition dec_round :: "buffer \<Rightarrow> buffer \<Rightarrow> buffer" where
  "dec_round s rk = inv_mix_columns (xor_block (map inv_sub_byte (inv_shift_rows s)) rk)"

definition cipher :: "buffer list \<Rightarrow> buffer \<Rightarrow> buffer" where
  "cipher rks blk =
     xor_block (shift_rows (map sub_byte
       (foldl enc_round (xor_block blk (hd rks)) (butlast (tl rks))))) (last rks)"

definition inv_cipher :: "buffer list \<Rightarrow> buffer \<Rightarrow> buffer" where
  "inv_cipher rks blk =
     xor_block (map inv_sub_byte (inv_shift_rows
       (foldl dec_round (xor_block blk (last rks)) (rev (butlast (tl rks)))))) (hd rks)"

definition aes256_encrypt_block :: "buffer \<Rightarrow> buffer \<Rightarrow> buffer" where
  "aes256_encrypt_block key blk = cipher (key_expansion key) blk"

definition aes256_decrypt_block :: "buffer \<Rightarrow> buffer \<Rightarrow> buffer" where
  "aes256_decrypt_block key blk = inv_cipher (key_expansion key) blk"

section \<open>Sequences of creation requests\<close>

text \<open>
  A sequence of \<^verbatim>\<open>POST /api/accounts\<close> requests, each with the clock reading and the
  nonce of its run; the result is the store they leave.
\<close>

fun add_accounts ::
    "library \<Rightarrow> string \<Rightarrow> (int \<times> buffer \<times> create_request) list \<Rightarrow> collection \<Rightarrow> collection" where
  "add_accounts L K [] coll = coll"
| "add_accounts L K ((now, iv, rq) # later) coll =
     add_accounts L K later (snd (add_account L K now iv rq coll))"

fun add_accounts_backup ::
    "library \<Rightarrow> buffer \<Rightarrow> (int \<times> buffer \<times> create_request) list \<Rightarrow> accounts \<Rightarrow> accounts" where
  "add_accounts_backup L key [] accs = accs"
| "add_accounts_backup L key ((now, iv, rq) # later) accs =
     add_accounts_backup L key later (snd (add_account_backup L key now iv rq accs))"

section \<open>Example inputs\<close>

text \<open>
  A library to run the routes with.  The block cipher is AES-256.  The two
  \<^verbatim>\<open>speakeasy\<close> functions are stand-ins: they throw on a secret that has a character
  outside the base32 alphabet and return a fixed code otherwise; the value of the code
  plays no role in what follows.
\<close>

definition base32_alphabet :: string where
  "base32_alphabet = ''ABCDEFGHIJKLMNOPQRSTUVWXYZ234567''"

definition is_base32 :: "string \<Rightarrow> bool" where
  "is_base32 s = list_all (\<lambda>c. c \<in> set base32_alphabet) s"

definition example_library :: library where
  "example_library =
     \<lparr> aes_encrypt = aes256_encrypt_block, aes_decrypt = aes256_decrypt_block,
       speakeasy_hotp = (\<lambda>opts. if is_base32 (h_secret opts) then Some ''755224'' else None),
       speakeasy_totp = (\<lambda>opts. if is_base32 (t_secret opts) then Some ''287082'' else None) \<rparr>"

definition hotp_account :: account where
  "hotp_account =
     \<lparr> acc_key = ''h'', acc_name = ''h'', acc_secret = ''JBSWY3DPEHPK3PXP'',
       acc_encrypted = False, acc_digits = 6, acc_period = 30, acc_algorithm = ''sha1'',
       acc_type = ''hotp'', acc_counter = 0 \<rparr>"


definition example_request :: create_request where
  "example_request =
     \<lparr> rq_key = Some ''a'', rq_name = None, rq_secret = Some ''JBSWY3DPEHPK3PXP'',
       rq_digits = None, rq_period = None, rq_algorithm = None, rq_type = None,
       rq_counter = None, rq_encrypt = Some False \<rparr>"

section \<open>Lemmas about buffers and the cipher\<close>

lemma utf8_roundtrip: "utf8_string (utf8_bytes s) = s"
proof -
  have "char_of (unat (of_nat (of_char c) :: byte)) = c" for c
  proof -
    have "(of_char c :: nat) < 256" by simp
    then have "unat (of_nat (of_char c) :: byte) = of_char c"
      by (simp add: unat_of_nat)
    then show ?thesis by simp
  qed
  then show ?thesis
    by (simp add: utf8_string_def utf8_bytes_def comp_def)
qed

lemma unhex_hex_digit: "n < 16 \<Longrightarrow> unhex (hex_digit n) = Some n"
proof -
  have "\<forall>n \<in> set [0..<16]. unhex (hex_digit n) = Some n"
    by (simp add: unhex_def hex_digit_def upt_rec)
  then show "n < 16 \<Longrightarrow> unhex (hex_digit n) = Some n" by simp
qed

lemma hex_digit_not_colon: "n < 16 \<Longrightarrow> hex_digit n \<noteq> CHR '':''"
proof -
  have "\<forall>n \<in> set [0..<16]. hex_digit n \<noteq> CHR '':''"
    by (simp add: hex_digit_def upt_rec)
  then show "n < 16 \<Longrightarrow> hex_digit n \<noteq> CHR '':''" by simp
qed

lemma byte_nibbles: "(of_nat (16 * (unat b div 16) + unat b mod 16) :: byte) = b"
  by simp

lemma unat_byte_div16: "unat (b :: byte) div 16 < 16"
proof -
  have "unat b < 2 ^ LENGTH(8)" by (rule unsigned_less)
  then show ?thesis by simp
qed

lemma from_hex_hex_byte: "from_hex (hex_byte b @ rest) = b # from_hex rest"
  using unat_byte_div16 [of b]
  by (simp add: hex_byte_def unhex_hex_digit)

lemma from_hex_toString_hex_append: "from_hex (toString_hex bs @ rest) = bs @ from_hex rest"
  by (induction bs) (simp_all add: toString_hex_def from_hex_hex_byte)

lemma from_hex_toString_hex: "from_hex (toString_hex bs) = bs"
  using from_hex_toString_hex_append [of bs "[]"] by simp

lemma colon_notin_hex_byte: "CHR '':'' \<notin> set (hex_byte b)"
  using unat_byte_div16 [of b] hex_digit_not_colon [of "unat b div 16"]
    hex_digit_not_colon [of "unat b mod 16"]
  by (simp add: hex_byte_def)

lemma colon_notin_hex: "CHR '':'' \<notin> set (toString_hex bs)"
  by (induction bs) (simp_all add: toString_hex_def colon_notin_hex_byte)

lemma split_acc_no_sep: "d \<notin> set xs \<Longrightarrow> split_acc d cur xs = [rev cur @ xs]"
  by (induction xs arbitrary: cur) auto

lemma split_acc_sep:
  "d \<notin> set xs \<Longrightarrow> split_acc d cur (xs @ d # ys) = (rev cur @ xs) # split_acc d [] ys"
  by (induction xs arbitrary: cur) auto

lemma split_envelope:
  "d \<notin> set xs \<Longrightarrow> d \<notin> set ys \<Longrightarrow> split d (xs @ d # ys) = [xs, ys]"
  by (simp add: split_def split_acc_sep split_acc_no_sep)

lemma toString_hex_inj: "toString_hex a = toString_hex b \<Longrightarrow> a = b"
  by (metis from_hex_toString_hex)


lemma pad_count: "1 \<le> 16 - n mod 16 \<and> 16 - n mod 16 \<le> (16::nat)"
  by simp

lemma length_pkcs7_pad: "length (pkcs7_pad bs) = 16 * Suc (length bs div 16)"
proof -
  define m where "m = length bs mod 16"
  define q where "q = length bs div 16"
  have l: "length bs = 16 * q + m" by (simp add: m_def q_def)
  have m: "m < 16" by (simp add: m_def)
  have "length (pkcs7_pad bs) = length bs + (16 - m)"
    by (simp add: pkcs7_pad_def Let_def m_def)
  with l m have "length (pkcs7_pad bs) = 16 * Suc q" by arith
  then show ?thesis by (simp only: q_def)
qed

lemma pkcs7_unpad_pad: "pkcs7_unpad (pkcs7_pad bs) = Some bs"
proof -
  define n where "n = 16 - length bs mod 16"
  have n: "1 \<le> n" "n \<le> 16" by (simp_all add: n_def)
  then have un: "unat (of_nat n :: byte) = n"
    by (simp add: unat_of_nat)
  have pad: "pkcs7_pad bs = bs @ replicate n (of_nat n)"
    by (simp add: pkcs7_pad_def n_def)
  have last: "last (bs @ replicate n (of_nat n :: byte)) = of_nat n"
    using n by (cases n) simp_all
  show ?thesis
    unfolding pad pkcs7_unpad_def using n
    by (simp add: last un Let_def)
qed

lemma concat_chunks: "length bs = 16 * n \<Longrightarrow> concat (chunks n bs) = bs"
proof (induction n arbitrary: bs)
  case 0
  then show ?case by simp
next
  case (Suc n)
  then have "length (drop 16 bs) = 16 * n" by simp
  with Suc.IH have "concat (chunks n (drop 16 bs)) = drop 16 bs" by blast
  then show ?case by simp
qed

lemma length_chunks: "length bs = 16 * n \<Longrightarrow> \<forall>c \<in> set (chunks n bs). length c = 16"
proof (induction n arbitrary: bs)
  case 0
  then show ?case by simp
next
  case (Suc n)
  then have "length (drop 16 bs) = 16 * n" by simp
  with Suc.IH have "\<forall>c \<in> set (chunks n (drop 16 bs)). length c = 16" by blast
  with Suc.prems show ?case by simp
qed

lemma chunks_concat:
  "\<forall>c \<in> set cs. length c = 16 \<Longrightarrow> chunks (length cs) (concat cs) = cs"
  by (induction cs) simp_all

lemma length_concat_blocks:
  "\<forall>c \<in> set cs. length c = 16 \<Longrightarrow> length (concat cs) = 16 * length cs"
  by (induction cs) simp_all

lemma blocks16_concat:
  assumes "\<forall>c \<in> set cs. length c = 16"
  shows "blocks16 (concat cs) = cs"
  using assms chunks_concat [OF assms] length_concat_blocks [OF assms]
  by (simp add: blocks16_def)

lemma blocks16_pad:
  "concat (blocks16 (pkcs7_pad bs)) = pkcs7_pad bs \<and>
   (\<forall>c \<in> set (blocks16 (pkcs7_pad bs)). length c = 16)"
proof -
  let ?n = "Suc (length bs div 16)"
  have len: "length (pkcs7_pad bs) = 16 * ?n" by (rule length_pkcs7_pad)
  then have "length (pkcs7_pad bs) div 16 = ?n" by (simp only: nonzero_mult_div_cancel_left)
  then have b: "blocks16 (pkcs7_pad bs) = chunks ?n (pkcs7_pad bs)"
    by (simp only: blocks16_def)
  show ?thesis
    unfolding b using concat_chunks [OF len] length_chunks [OF len] by blast
qed

lemma length_xor_block: "length (xor_block a b) = min (length a) (length b)"
  by (induction a b rule: xor_block.induct) simp_all

lemma xor_block_cancel: "length a \<le> length b \<Longrightarrow> xor_block (xor_block a b) b = a"
  by (induction a b rule: xor_block.induct) (simp_all add: xor.assoc)

lemma cbc_roundtrip:
  assumes "\<And>b. length b = 16 \<Longrightarrow> length (E b) = 16 \<and> D (E b) = b"
  shows "length prev = 16 \<Longrightarrow> \<forall>p \<in> set ps. length p = 16 \<Longrightarrow>
         cbc_dec D prev (cbc_enc E prev ps) = ps \<and>
         (\<forall>c \<in> set (cbc_enc E prev ps). length c = 16) \<and>
         length (cbc_enc E prev ps) = length ps"
proof (induction ps arbitrary: prev)
  case Nil
  then show ?case by simp
next
  case (Cons p ps)
  let ?x = "xor_block p prev"
  have x: "length ?x = 16" using Cons.prems by (simp add: length_xor_block)
  have e: "length (E ?x) = 16" "D (E ?x) = ?x" using assms [OF x] by simp_all
  have c: "xor_block ?x prev = p" using Cons.prems by (simp add: xor_block_cancel)
  from Cons.IH [OF e(1)] Cons.prems(2) e c show ?case
    by (simp add: Let_def)
qed


lemma cipher_roundtrip:
  assumes "cipher_pair E D key" and "length iv = 16"
  shows "decipher_run D key iv (concat (cbc_enc (E key) iv (blocks16 (pkcs7_pad data)))) = Inr data"
proof -
  let ?ps = "blocks16 (pkcs7_pad data)"
  let ?cs = "cbc_enc (E key) iv ?ps"
  have ed: "\<And>b. length b = 16 \<Longrightarrow> length (E key b) = 16 \<and> D key (E key b) = b"
    using assms(1) by (simp add: cipher_pair_def)
  have ps: "concat ?ps = pkcs7_pad data" "\<forall>c \<in> set ?ps. length c = 16"
    using blocks16_pad [of data] by simp_all
  have rt: "cbc_dec (D key) iv ?cs = ?ps" "\<forall>c \<in> set ?cs. length c = 16"
    "length ?cs = length ?ps"
    using cbc_roundtrip [of "E key" "D key" iv ?ps, OF ed assms(2) ps(2)] by simp_all
  have "length (concat ?ps) = 16 * length ?ps"
    using ps(2) by (rule length_concat_blocks)
  then have "length ?ps \<noteq> 0"
    using ps(1) length_pkcs7_pad [of data] by auto
  then have "length (concat ?cs) \<noteq> 0" "length (concat ?cs) mod 16 = 0"
    using rt(3) length_concat_blocks [OF rt(2)] by simp_all
  then have ne: "concat ?cs \<noteq> []" "length (concat ?cs) mod 16 = 0"
    by (simp_all only: length_0_conv not_False_eq_True)
  have "blocks16 (concat ?cs) = ?cs" using rt(2) by (rule blocks16_concat)
  then show ?thesis
    using ne by (simp add: decipher_run_def rt(1) ps(1) pkcs7_unpad_pad)
qed

lemma encrypt_backup_decrypt_backup:
  assumes "cipher_pair E D key" and "length key = 32" and "length iv = 16"
  shows "\<exists>env. encrypt_backup E key iv s = Inr env \<and> decrypt_backup D key env = Inr s"
  using assms
  by (simp add: encrypt_backup_def decrypt_backup_def createCipheriv_def createDecipheriv_def
      split_envelope colon_notin_hex from_hex_toString_hex cipher_roundtrip utf8_roundtrip)

lemma encrypt_decrypt:
  assumes "cipher_pair E D (from_hex (take 64 K))" and "length (from_hex (take 64 K)) = 32"
    and "length iv = 16"
  shows "\<exists>env. encrypt E K iv s = Inr env \<and> decrypt D K env = Inr s"
  using assms
  by (simp add: encrypt_def decrypt_def createCipheriv_def createDecipheriv_def
      split_envelope colon_notin_hex from_hex_toString_hex cipher_roundtrip utf8_roundtrip)

lemma envelope_inj:
  assumes "length iv = length iv'"
    and "toString_hex iv @ CHR '':'' # a = toString_hex iv' @ CHR '':'' # b"
  shows "iv = iv'"
proof -
  have "from_hex (toString_hex iv @ CHR '':'' # a) = from_hex (toString_hex iv' @ CHR '':'' # b)"
    using assms(2) by simp
  then have "iv @ from_hex (CHR '':'' # a) = iv' @ from_hex (CHR '':'' # b)"
    by (simp only: from_hex_toString_hex_append)
  with assms(1) show ?thesis by simp
qed

lemma encrypt_fresh_iv:
  assumes "length key = 32" and "length iv = 16" and "length iv' = 16" and "iv \<noteq> iv'"
  shows "encrypt_backup E key iv s \<noteq> encrypt_backup E key iv' s'"
  using assms envelope_inj [of iv iv']
  by (auto simp: encrypt_backup_def createCipheriv_def)

section \<open>Claims\<close>

text \<open>
  C2.  Round trip and fresh nonces.  For every plaintext string \<open>s\<close> (empty or not),
  every 32-byte master key and every 16-byte nonce drawn by \<^verbatim>\<open>crypto.randomBytes(16)\<close>,
  \<open>encrypt\<close> returns an envelope and \<open>decrypt\<close> of that envelope returns \<open>s\<close>, in
  \<^verbatim>\<open>server.js\<close> (key given as a hex string \<open>K\<close>) and in \<^verbatim>\<open>server-backup.js\<close> (key
  given as a buffer).  Two encryptions of the same plaintext whose nonces differ give
  different envelopes.  The block cipher is any pair of functions in which decryption
  undoes encryption on 16-byte blocks, as AES-256 does.
\<close>

theorem encrypt_decrypt_round_trip:
  assumes "cipher_pair E D key" and "length key = 32" and "from_hex (take 64 K) = key"
    and "length iv = 16" and "length iv' = 16"
  shows "(\<exists>env. encrypt E K iv s = Inr env \<and> decrypt D K env = Inr s) \<and>
         (\<exists>env. encrypt_backup E key iv s = Inr env \<and> decrypt_backup D key env = Inr s) \<and>
         (iv \<noteq> iv' \<longrightarrow>
            encrypt E K iv s \<noteq> encrypt E K iv' s \<and>
            encrypt_backup E key iv s \<noteq> encrypt_backup E key iv' s)"
proof -
  have a: "\<exists>env. encrypt E K iv s = Inr env \<and> decrypt D K env = Inr s"
    using assms by (intro encrypt_decrypt) simp_all
  have b: "\<exists>env. encrypt_backup E key iv s = Inr env \<and> decrypt_backup D key env = Inr s"
    using assms by (intro encrypt_backup_decrypt_backup) simp_all
  have c: "encrypt_backup E key iv s \<noteq> encrypt_backup E key iv' s" if "iv \<noteq> iv'"
    using assms that by (intro encrypt_fresh_iv) simp_all
  have d: "encrypt E K iv s = encrypt_backup E key iv s" for iv
    using assms(3) by (simp add: encrypt_def encrypt_backup_def)
  from a b c d show ?thesis by simp
qed

theorem encrypt_decrypt_round_trip_witness:
  "cipher_pair xor_cipher xor_cipher example_key \<and> length example_key = 32 \<and>
   from_hex (take 64 example_key_hex) = example_key \<and>
   length zero_iv = 16 \<and> length ones_iv = 16 \<and> zero_iv \<noteq> ones_iv \<and>
   (\<exists>env. encrypt xor_cipher example_key_hex zero_iv ''JBSWY3DPEHPK3PXP'' = Inr env \<and>
          decrypt xor_cipher example_key_hex env = Inr ''JBSWY3DPEHPK3PXP'') \<and>
   (\<exists>env. encrypt_backup xor_cipher example_key zero_iv ''JBSWY3DPEHPK3PXP'' = Inr env \<and>
          decrypt_backup xor_cipher example_key env = Inr ''JBSWY3DPEHPK3PXP'') \<and>
   encrypt xor_cipher example_key_hex zero_iv ''JBSWY3DPEHPK3PXP'' \<noteq>
     encrypt xor_cipher example_key_hex ones_iv ''JBSWY3DPEHPK3PXP'' \<and>
   encrypt_backup xor_cipher example_key zero_iv ''JBSWY3DPEHPK3PXP'' \<noteq>
     encrypt_backup xor_cipher example_key ones_iv ''JBSWY3DPEHPK3PXP''"
proof -
  have k: "length example_key = 32" by (simp add: example_key_def)
  have h: "from_hex (take 64 example_key_hex) = example_key"
    by (simp add: example_key_hex_def example_key_def unhex_def)
  have p: "cipher_pair xor_cipher xor_cipher example_key"
    using k by (simp add: cipher_pair_def xor_cipher_def length_xor_block xor_block_cancel)
  have i: "length zero_iv = 16" "length ones_iv = 16" "zero_iv \<noteq> ones_iv"
    by (simp_all add: zero_iv_def ones_iv_def)
  from encrypt_decrypt_round_trip [OF p k h i(1) i(2), of "''JBSWY3DPEHPK3PXP''"] p k h i
  show ?thesis by simp
qed



lemma split_no_sep: "d \<notin> set xs \<Longrightarrow> split d xs = [xs]"
  by (simp add: split_def split_acc_no_sep)

lemma split_first: "d \<notin> set xs \<Longrightarrow> split d (xs @ d # ys) = xs # split d ys"
  by (simp add: split_def split_acc_sep)

lemma split_acc_not_Nil: "split_acc d cur s \<noteq> []"
  by (induction s arbitrary: cur) simp_all

lemma split_not_Nil: "split d s \<noteq> []"
  by (simp add: split_def split_acc_not_Nil)

text \<open>
  C7 (as the code has it).  \<open>parseOTPAuth\<close> fails when the string does not start with
  \<^verbatim>\<open>otpauth://\<close> and when the \<^verbatim>\<open>secret\<close> query parameter is absent or empty.  The
  label is the percent-decoded path without its leading slash.  When the label has no
  colon it is the account name, and the issuer is the explicit \<^verbatim>\<open>issuer\<close> parameter when
  that is present and non-empty, else the whole label (never undefined).  When the
  label contains a colon, the account name is the segment after the first colon (up to
  the second colon, when there is one) and the issuer is the explicit parameter when
  present and non-empty, else the segment before the first colon.
\<close>

theorem parseOTPAuth_label:
  "(take 10 u \<noteq> ''otpauth://'' \<longrightarrow> parseOTPAuth rt u = Inl InvalidOTPAuthURL) \<and>
   (take 10 u = ''otpauth://'' \<and> new_URL rt u = Some urlObj \<and>
    decodeURIComponent rt (drop 1 (url_pathname urlObj)) = Some label \<longrightarrow>
      ((searchParams_get rt (url_search urlObj) ''secret'' = None \<or>
        searchParams_get rt (url_search urlObj) ''secret'' = Some []) \<longrightarrow>
          parseOTPAuth rt u = Inl SecretNotFound) \<and>
      (\<forall>secret. searchParams_get rt (url_search urlObj) ''secret'' = Some secret \<and> secret \<noteq> [] \<longrightarrow>
         (\<exists>r. parseOTPAuth rt u = Inr r \<and> p_secret r = secret \<and>
            (CHR '':'' \<notin> set label \<longrightarrow>
               p_accountName r = label \<and>
               p_issuer r = or_else (searchParams_get rt (url_search urlObj) ''issuer'') label) \<and>
            (\<forall>x y. label = x @ CHR '':'' # y \<and> CHR '':'' \<notin> set x \<and> CHR '':'' \<notin> set y \<longrightarrow>
               p_accountName r = y \<and>
               p_issuer r = or_else (searchParams_get rt (url_search urlObj) ''issuer'') x) \<and>
            (\<forall>x y z. label = x @ CHR '':'' # y @ CHR '':'' # z \<and>
                     CHR '':'' \<notin> set x \<and> CHR '':'' \<notin> set y \<longrightarrow>
               p_accountName r = y \<and>
               p_issuer r = or_else (searchParams_get rt (url_search urlObj) ''issuer'') x))))"
proof -
  have one: "split CHR '':'' (x @ CHR '':'' # y) = [x, y]"
    if "CHR '':'' \<notin> set x" "CHR '':'' \<notin> set y" for x y
    using that by (simp add: split_first split_no_sep)
  have two: "split CHR '':'' (x @ CHR '':'' # y @ CHR '':'' # z) = x # y # split CHR '':'' z"
    if "CHR '':'' \<notin> set x" "CHR '':'' \<notin> set y" for x y z
    using that by (simp add: split_first)
  show ?thesis
    by (auto simp: parseOTPAuth_def or_null_def split_no_sep one two split: option.splits)
qed

text \<open>
  C7, witness: the provisioning URI of the specification's example, on the small
  runtime.
\<close>

theorem parseOTPAuth_label_witness:
  "take 10 ''otpauth://totp/Issuer:alice@example.com?secret=JBSWY3DPEHPK3PXP&issuer=Issuer&digits=6&period=30''
     = ''otpauth://'' \<and>
   new_URL simple_runtime
     ''otpauth://totp/Issuer:alice@example.com?secret=JBSWY3DPEHPK3PXP&issuer=Issuer&digits=6&period=30''
     = Some \<lparr> url_host = ''totp'', url_pathname = ''/Issuer:alice@example.com'',
               url_search = ''?secret=JBSWY3DPEHPK3PXP&issuer=Issuer&digits=6&period=30'' \<rparr> \<and>
   decodeURIComponent simple_runtime ''Issuer:alice@example.com'' = Some ''Issuer:alice@example.com'' \<and>
   searchParams_get simple_runtime ''?secret=JBSWY3DPEHPK3PXP&issuer=Issuer&digits=6&period=30'' ''secret''
     = Some ''JBSWY3DPEHPK3PXP'' \<and>
   (\<exists>r. parseOTPAuth simple_runtime
          ''otpauth://totp/Issuer:alice@example.com?secret=JBSWY3DPEHPK3PXP&issuer=Issuer&digits=6&period=30''
          = Inr r \<and>
        p_secret r = ''JBSWY3DPEHPK3PXP'' \<and> p_accountName r = ''alice@example.com'' \<and>
        p_issuer r = ''Issuer'')"
proof -
  let ?u = "''otpauth://totp/Issuer:alice@example.com?secret=JBSWY3DPEHPK3PXP&issuer=Issuer&digits=6&period=30''"
  let ?q = "''?secret=JBSWY3DPEHPK3PXP&issuer=Issuer&digits=6&period=30''"
  let ?o = "\<lparr> url_host = ''totp'', url_pathname = ''/Issuer:alice@example.com'', url_search = ?q \<rparr>"
  have a: "take 10 ?u = ''otpauth://''" by simp
  have b: "new_URL simple_runtime ?u = Some ?o" by code_simp
  have c: "decodeURIComponent simple_runtime (drop 1 (url_pathname ?o)) = Some ''Issuer:alice@example.com''"
    by code_simp
  have d: "searchParams_get simple_runtime (url_search ?o) ''secret'' = Some ''JBSWY3DPEHPK3PXP''"
    by code_simp
  have e: "searchParams_get simple_runtime ?q ''issuer'' = Some ''Issuer''"
    by code_simp
  from parseOTPAuth_label [of ?u simple_runtime ?o "''Issuer:alice@example.com''"] a b c d
  obtain r where r: "parseOTPAuth simple_runtime ?u = Inr r" "p_secret r = ''JBSWY3DPEHPK3PXP''"
    and l: "\<forall>x y. ''Issuer:alice@example.com'' = x @ CHR '':'' # y \<and> CHR '':'' \<notin> set x \<and>
             CHR '':'' \<notin> set y \<longrightarrow>
             p_accountName r = y \<and>
             p_issuer r = or_else (searchParams_get simple_runtime (url_search ?o) ''issuer'') x"
    by auto
  from l [rule_format, of "''Issuer''" "''alice@example.com''"]
  have "p_accountName r = ''alice@example.com''" "p_issuer r = ''Issuer''"
    by (simp_all add: e or_else_def)
  with r a b c d show ?thesis by simp
qed

text \<open>
  C7, counterexample to the claim as stated (``the issuer is undefined when neither a
  colon nor an \<^verbatim>\<open>issuer\<close> parameter is present''): for the label \<^verbatim>\<open>alice\<close> the issuer is
  \<^verbatim>\<open>alice\<close>.
\<close>

theorem parseOTPAuth_issuer_counterexample:
  "parseOTPAuth simple_runtime ''otpauth://totp/alice?secret=JBSWY3DPEHPK3PXP'' =
     Inr \<lparr> p_secret = ''JBSWY3DPEHPK3PXP'', p_issuer = ''alice'', p_accountName = ''alice'',
           p_type = ''totp'', p_algorithm = ''sha1'', p_digits = Some 6, p_period = Some 30,
           p_counter = None,
           p_otpAuthUrl = ''otpauth://totp/alice?secret=JBSWY3DPEHPK3PXP'' \<rparr>"
  by code_simp

section \<open>AES-256 on the example key\<close>

text \<open>
  The key schedule of the key of FIPS-197, Appendix C.3, and one block under it (the
  ciphertext of the padded plaintext \<^verbatim>\<open>A\<close>, as OpenSSL computes it).
\<close>

lemma key_expansion_example:
  "key_expansion example_key =
     [[0x00, 0x01, 0x02, 0x03, 0x04, 0x05, 0x06, 0x07, 0x08, 0x09, 0x0a, 0x0b, 0x0c, 0x0d, 0x0e, 0x0f],
      [0x10, 0x11, 0x12, 0x13, 0x14, 0x15, 0x16, 0x17, 0x18, 0x19, 0x1a, 0x1b, 0x1c, 0x1d, 0x1e, 0x1f],
      [0xa5, 0x73, 0xc2, 0x9f, 0xa1, 0x76, 0xc4, 0x98, 0xa9, 0x7f, 0xce, 0x93, 0xa5, 0x72, 0xc0, 0x9c],
      [0x16, 0x51, 0xa8, 0xcd, 0x02, 0x44, 0xbe, 0xda, 0x1a, 0x5d, 0xa4, 0xc1, 0x06, 0x40, 0xba, 0xde],
      [0xae, 0x87, 0xdf, 0xf0, 0x0f, 0xf1, 0x1b, 0x68, 0xa6, 0x8e, 0xd5, 0xfb, 0x03, 0xfc, 0x15, 0x67],
      [0x6d, 0xe1, 0xf1, 0x48, 0x6f, 0xa5, 0x4f, 0x92, 0x75, 0xf8, 0xeb, 0x53, 0x73, 0xb8, 0x51, 0x8d],
      [0xc6, 0x56, 0x82, 0x7f, 0xc9, 0xa7, 0x99, 0x17, 0x6f, 0x29, 0x4c, 0xec, 0x6c, 0xd5, 0x59, 0x8b],
      [0x3d, 0xe2, 0x3a, 0x75, 0x52, 0x47, 0x75, 0xe7, 0x27, 0xbf, 0x9e, 0xb4, 0x54, 0x07, 0xcf, 0x39],
      [0x0b, 0xdc, 0x90, 0x5f, 0xc2, 0x7b, 0x09, 0x48, 0xad, 0x52, 0x45, 0xa4, 0xc1, 0x87, 0x1c, 0x2f],
      [0x45, 0xf5, 0xa6, 0x60, 0x17, 0xb2, 0xd3, 0x87, 0x30, 0x0d, 0x4d, 0x33, 0x64, 0x0a, 0x82, 0x0a],
      [0x7c, 0xcf, 0xf7, 0x1c, 0xbe, 0xb4, 0xfe, 0x54, 0x13, 0xe6, 0xbb, 0xf0, 0xd2, 0x61, 0xa7, 0xdf],
      [0xf0, 0x1a, 0xfa, 0xfe, 0xe7, 0xa8, 0x29, 0x79, 0xd7, 0xa5, 0x64, 0x4a, 0xb3, 0xaf, 0xe6, 0x40],
      [0x25, 0x41, 0xfe, 0x71, 0x9b, 0xf5, 0x00, 0x25, 0x88, 0x13, 0xbb, 0xd5, 0x5a, 0x72, 0x1c, 0x0a],
      [0x4e, 0x5a, 0x66, 0x99, 0xa9, 0xf2, 0x4f, 0xe0, 0x7e, 0x57, 0x2b, 0xaa, 0xcd, 0xf8, 0xcd, 0xea],
      [0x24, 0xfc, 0x79, 0xcc, 0xbf, 0x09, 0x79, 0xe9, 0x37, 0x1a, 0xc2, 0x3c, 0x6d, 0x68, 0xde, 0x36]]"
  by (simp add: key_expansion_def key_words_def key_step_def key_temp_def rcon_def
      sub_byte_def sbox_def example_key_def)


lemma aes256_encrypt_example:
  "aes256_encrypt_block example_key
     [0x41, 0x0f, 0x0f, 0x0f, 0x0f, 0x0f, 0x0f, 0x0f, 0x0f, 0x0f, 0x0f, 0x0f, 0x0f, 0x0f, 0x0f, 0x0f] =
     [0x48, 0xff, 0x39, 0xfe, 0x4c, 0x48, 0xb7, 0x56, 0xd0, 0xa0, 0xd4, 0x2e, 0x45, 0x1d, 0x39, 0x44]"
  by (simp add: aes256_encrypt_block_def key_expansion_example cipher_def enc_round_def
      shift_rows_def sub_byte_def sbox_def xtime_def)



















section \<open>Issuing codes and the HOTP counter\<close>

text \<open>
  In \<^verbatim>\<open>server-backup.js\<close> the increment is inside \<^verbatim>\<open>generateOTP\<close>: a successful HOTP
  issuance returns the account with its counter advanced by one, and \<open>N\<close> successful
  requests to \<^verbatim>\<open>GET /api/code/:key\<close> advance the stored counter by \<open>N\<close>
  (\<open>issue_all_counter\<close>).
\<close>

lemma map_of_replace_doc:
  "map_of (replace_doc k a accs) k' =
     (if k' = k \<and> map_of accs k \<noteq> None then Some a else map_of accs k')"
  by (induction accs) auto

lemma generateOTP_hotp:
  assumes "m_type a = ''hotp''" and "generateOTP L key now a = Inr (r, a')"
  shows "a' = a\<lparr> m_counter := Some (default_to (m_counter a) 0 + 1) \<rparr> \<and> (\<exists>token. r = Hotp token)"
  using assms
  by (auto simp: generateOTP_def Let_def split: sum.splits option.splits if_splits)

lemma generateOTP_totp:
  assumes "m_type a \<noteq> ''hotp''" and "generateOTP L key now a = Inr (r, a')"
  shows "a' = a"
  using assms
  by (auto simp: generateOTP_def Let_def split: sum.splits option.splits if_splits)


lemma get_code_backup_store:
  "snd (get_code_backup L key now k accs) =
     (case map_of accs k of
        None \<Rightarrow> accs
      | Some a \<Rightarrow> (case generateOTP L key now a of
                     Inl e \<Rightarrow> accs
                   | Inr (r, a') \<Rightarrow> replace_doc k a' accs))"
  by (auto simp: get_code_backup_def lookup_def split: option.splits sum.splits slot.splits)

lemma counter_of_replace_doc:
  "map_of accs k = Some a \<Longrightarrow>
   counter_of (replace_doc k (a\<lparr> m_counter := Some (default_to (m_counter a) 0 + 1) \<rparr>) accs) k
     = counter_of accs k + 1"
  by (simp add: counter_of_def map_of_replace_doc default_to_def)

lemma get_code_backup_hotp:
  assumes "map_of accs k = Some a" and "m_type a = ''hotp''"
    and "fst (get_code_backup L key now k accs) = Inr rep"
  shows "\<exists>a'. map_of (snd (get_code_backup L key now k accs)) k = Some a' \<and>
           m_type a' = ''hotp'' \<and>
           counter_of (snd (get_code_backup L key now k accs)) k = counter_of accs k + 1"
proof -
  from assms(1,3) obtain r a' where g: "generateOTP L key now a = Inr (r, a')"
    by (auto simp: get_code_backup_def lookup_def split: sum.splits)
  from generateOTP_hotp [OF assms(2) g]
  have a': "a' = a\<lparr> m_counter := Some (default_to (m_counter a) 0 + 1) \<rparr>" by simp
  have s: "snd (get_code_backup L key now k accs) = replace_doc k a' accs"
    using assms(1) g by (simp add: get_code_backup_store)
  show ?thesis
    using assms(1,2) counter_of_replace_doc [OF assms(1)]
    by (simp add: s a' map_of_replace_doc)
qed

lemma issue_all_counter:
  assumes "map_of accs k = Some a" and "m_type a = ''hotp''"
    and "\<forall>r \<in> set (fst (issue_all L key k nows accs)). \<exists>rep. r = Inr rep"
  shows "counter_of (snd (issue_all L key k nows accs)) k = counter_of accs k + length nows"
  using assms
proof (induction nows arbitrary: accs a)
  case Nil
  then show ?case by simp
next
  case (Cons now nows)
  let ?s = "snd (get_code_backup L key now k accs)"
  from Cons.prems(3) obtain rep where rep: "fst (get_code_backup L key now k accs) = Inr rep"
    by auto
  from get_code_backup_hotp [OF Cons.prems(1,2) rep]
  obtain a' where a': "map_of ?s k = Some a'" "m_type a' = ''hotp''"
    "counter_of ?s k = counter_of accs k + 1" by blast
  have "\<forall>r \<in> set (fst (issue_all L key k nows ?s)). \<exists>rep. r = Inr rep"
    using Cons.prems(3) by simp
  from Cons.IH [OF a'(1,2) this] a'(3) show ?case by simp
qed

lemma get_code_store: "snd (get_code L K now accountKey coll) = coll"
  by (simp add: get_code_def split: option.splits sum.splits)

text \<open>
  C1.  The issuance path of \<^verbatim>\<open>server.js\<close> does not pair an issuance with an increment.
  For the stored HOTP account \<^verbatim>\<open>h\<close> with counter 0, \<^verbatim>\<open>GET /api/code/h\<close> answers with a
  code (here with the example library) and, whatever the library, the key and the
  clock are, leaves the collection as it was: the counter stays 0.
\<close>

theorem get_code_never_advances_counter:
  "acc_type hotp_account = ''hotp'' \<and> acc_counter hotp_account = 0 \<and>
   (\<exists>reply. fst (get_code example_library example_key_hex now ''h'' [(''h'', hotp_account)])
             = Inr reply) \<and>
   snd (get_code L K now' ''h'' [(''h'', hotp_account)]) = [(''h'', hotp_account)]"
proof -
  have "is_base32 ''JBSWY3DPEHPK3PXP''" by code_simp
  then have "\<exists>reply. fst (get_code example_library example_key_hex now ''h'' [(''h'', hotp_account)])
             = Inr reply"
    by (simp add: get_code_def findByKey_def trim_def is_space_def hotp_account_def
        example_library_def timeRemaining_def js_rem_def)
  then show ?thesis
    by (simp add: get_code_store) (simp add: hotp_account_def)
qed





end
